theory Spec2Isabelle
  imports Main "HOL-Library.Word"
begin

section \<open>Tensors of 64-bit integers\<close>

text \<open>
  The ledgers of the tutorial notebook keep every balance vector and every transfer record
  in a one-dimensional \<^verbatim>\<open>torch.LongTensor\<close>: a vector of signed 64-bit integers whose
  arithmetic wraps around modulo \<open>2 ^ 64\<close>.  A tensor is a list of 64-bit words; \<open>sint\<close>
  reads an entry as the signed number Python prints.
\<close>

type_synonym long = "64 word"
type_synonym tensor = "long list"

text \<open>
  Two things can go wrong in \<^verbatim>\<open>record[frm] = -amt\<close>: a Python integer, the value or the
  index, does not fit 64 bits (torch's \<^verbatim>\<open>RuntimeError: Overflow when unpacking long\<close>,
  here \<open>OverflowError\<close>), or the index is outside the tensor (\<open>IndexError\<close>).
  \<^verbatim>\<open>transactions[0]\<close> on an empty Python list is an \<open>IndexError\<close> as well.
\<close>

datatype error = IndexError | OverflowError

text \<open>A Python integer is stored in a long tensor only if it is a signed 64-bit value.\<close>

definition fits_long :: "int \<Rightarrow> bool" where
  "fits_long v = (- (2 ^ 63) \<le> v \<and> v < 2 ^ 63)"

definition to_long :: "int \<Rightarrow> error + long" where
  "to_long v = (if fits_long v then Inr (word_of_int v) else Inl OverflowError)"

text \<open>\<^verbatim>\<open>sy.zeros(n).long()\<close> and \<^verbatim>\<open>sy.ones(n).long()\<close>.\<close>

definition zeros :: "nat \<Rightarrow> tensor" where
  "zeros n = replicate n 0"

definition ones :: "nat \<Rightarrow> tensor" where
  "ones n = replicate n 1"

text \<open>
  An integer index into a tensor of \<open>n\<close> entries.  The index is itself unpacked into 64
  bits: torch takes only an index strictly between \<open>- 2 ^ 63\<close> and \<open>2 ^ 63\<close>, and does
  not get as far as the range check with any other (it raises the overflow error, or
  fails outright; the theorems below are about the indices it takes).  Of those,
  \<open>0 \<le> i < n\<close> is the position itself, a negative \<open>i \<ge> - n\<close> counts from the end, and
  everything else is out of range.
\<close>

definition resolve_index :: "nat \<Rightarrow> int \<Rightarrow> error + nat" where
  "resolve_index n i =
     (if fits_long i \<and> fits_long (- i) then
        (let j = (if i < 0 then int n + i else i)
         in if 0 \<le> j \<and> j < int n then Inr (nat j) else Inl IndexError)
      else Inl OverflowError)"

text \<open>
  \<^verbatim>\<open>t[i] = v\<close>: the value is converted first, then the index is resolved and the value
  stored.  A value that does not fit raises the overflow error whatever the index is.
\<close>

definition setitem :: "tensor \<Rightarrow> int \<Rightarrow> int \<Rightarrow> error + tensor" where
  "setitem t i v =
     (case to_long v of
        Inl e \<Rightarrow> Inl e
      | Inr w \<Rightarrow>
          (case resolve_index (length t) i of Inl e \<Rightarrow> Inl e | Inr k \<Rightarrow> Inr (t[k := w])))"

text \<open>
  \<^verbatim>\<open>a + b\<close> on two tensors of one size: entry by entry, wrapping.  The ledgers only add
  tensors of \<open>num_accounts\<close> entries (\<open>transact_seq_sizes\<close> below); what torch does with
  two sizes is not modelled, and every general statement about \<open>transact\<close> below is about
  ledgers reached from the constructor.
\<close>

definition tensor_add :: "tensor \<Rightarrow> tensor \<Rightarrow> tensor" where
  "tensor_add a b = map2 (+) a b"

text \<open>
  \<^verbatim>\<open>t * k\<close> for a Python integer \<open>k\<close>: every entry is multiplied by \<open>k\<close>, wrapping.  The
  ledgers only multiply by \<open>1 - count\<close>, a number between \<open>1 - n\<close> and \<open>1\<close>.
\<close>

definition tensor_mul_scalar :: "tensor \<Rightarrow> int \<Rightarrow> tensor" where
  "tensor_mul_scalar t k = map (\<lambda>x. x * word_of_int k) t"

text \<open>
  \<^verbatim>\<open>(t < 0)\<close> is a byte tensor holding 1 where the signed entry is negative and 0
  elsewhere; \<^verbatim>\<open>.sum()\<close> of it is a Python integer, the number of negative entries.
\<close>

definition tensor_lt_zero :: "tensor \<Rightarrow> int list" where
  "tensor_lt_zero t = map (\<lambda>x. if sint x < 0 then 1 else 0) t"

definition byte_sum :: "int list \<Rightarrow> int" where
  "byte_sum bs = sum_list bs"

text \<open>\<^verbatim>\<open>t.sum()\<close> of a long tensor: the wrapping sum of its entries.\<close>

definition tensor_sum :: "tensor \<Rightarrow> long" where
  "tensor_sum t = sum_list t"

section \<open>The transfer record\<close>

text \<open>
  Both ledgers build the record of a transfer with the same three statements:
  \<^verbatim>\<open>
  record = sy.zeros(self.num_accounts).long()
  record[frm] = -amt
  record[to] = amt
  \<close>
  The second store happens after the first, on the same tensor.
\<close>

definition build_record :: "nat \<Rightarrow> int \<Rightarrow> int \<Rightarrow> int \<Rightarrow> error + tensor" where
  "build_record n amt frm to =
     (case setitem (zeros n) frm (- amt) of
        Inl e \<Rightarrow> Inl e
      | Inr record \<Rightarrow> setitem record to amt)"

section \<open>SimpleLedger (step 2 of the notebook)\<close>

record SimpleLedger =
  transactions :: "tensor list"
  num_accounts :: nat
  running_balance :: tensor

text \<open>
  \<^verbatim>\<open>
  def compute_balances(self):
      balance = self.transactions[0]
      for t in self.transactions[1:]:
          balance = balance + t
      return balance
  \<close>
\<close>

definition compute_balances :: "SimpleLedger \<Rightarrow> error + tensor" where
  "compute_balances self =
     (case transactions self of
        [] \<Rightarrow> Inl IndexError
      | balance # ts \<Rightarrow> Inr (foldl tensor_add balance ts))"

text \<open>
  \<^verbatim>\<open>
  def __init__(self, num_accounts=10, starting_balance=100):
      self.transactions = list()
      self.num_accounts = num_accounts
      initial_balances = sy.ones(num_accounts).long() * starting_balance
      self.transactions.append(initial_balances)
      self.running_balance = self.compute_balances()
  \<close>
  \<open>running_balance\<close> does not exist before the last statement; the record holds \<open>[]\<close>
  there until it is assigned.
\<close>

definition SimpleLedger_init :: "nat \<Rightarrow> int \<Rightarrow> error + SimpleLedger" where
  "SimpleLedger_init n starting_balance =
     (if fits_long starting_balance then
        (let initial_balances = tensor_mul_scalar (ones n) starting_balance;
             self = \<lparr>transactions = [] @ [initial_balances], num_accounts = n,
                     running_balance = []\<rparr>
         in case compute_balances self of
              Inl e \<Rightarrow> Inl e
            | Inr b \<Rightarrow> Inr (self\<lparr>running_balance := b\<rparr>))
      else Inl OverflowError)"

text \<open>
  \<^verbatim>\<open>
  def transact(self, amt=10, frm=0, to=1):
      record = sy.zeros(self.num_accounts).long()
      record[frm] = -amt
      record[to] = amt
      candidate_balance = self.running_balance + record
      neg_check = 1 - (candidate_balance < 0).sum()
      record = record * neg_check
      self.transactions.append(record)
      self.running_balance = self.running_balance + record
  \<close>
  An exception leaves the ledger as it was: both stores into \<open>record\<close> come before the
  first assignment to a field of \<open>self\<close>.
\<close>

definition neg_check :: "tensor \<Rightarrow> int" where
  "neg_check candidate_balance = 1 - byte_sum (tensor_lt_zero candidate_balance)"

definition transact :: "SimpleLedger \<Rightarrow> int \<Rightarrow> int \<Rightarrow> int \<Rightarrow> error + SimpleLedger" where
  "transact self amt frm to =
     (case build_record (num_accounts self) amt frm to of
        Inl e \<Rightarrow> Inl e
      | Inr record0 \<Rightarrow>
          (let candidate_balance = tensor_add (running_balance self) record0;
               record = tensor_mul_scalar record0 (neg_check candidate_balance)
           in Inr (self\<lparr>transactions := transactions self @ [record],
                        running_balance := tensor_add (running_balance self) record\<rparr>)))"

text \<open>A later statement of a notebook cell runs only if the earlier one did not raise.\<close>

definition and_then :: "error + 'a \<Rightarrow> ('a \<Rightarrow> error + 'b) \<Rightarrow> error + 'b" where
  "and_then r f = (case r of Inl e \<Rightarrow> Inl e | Inr x \<Rightarrow> f x)"

text \<open>
  A sequence of calls \<^verbatim>\<open>ledger.transact(amt, frm, to)\<close> on one ledger, each on the
  state the previous one left; the first exception ends the sequence.
\<close>

fun transact_seq :: "SimpleLedger \<Rightarrow> (int \<times> int \<times> int) list \<Rightarrow> error + SimpleLedger" where
  "transact_seq self [] = Inr self"
| "transact_seq self ((amt, frm, to) # calls) =
     (case transact self amt frm to of
        Inl e \<Rightarrow> Inl e
      | Inr self' \<Rightarrow> transact_seq self' calls)"

text \<open>The balances as Python prints them: the signed reading of every entry.\<close>

definition signed_balances :: "SimpleLedger \<Rightarrow> error + int list" where
  "signed_balances self =
     (case compute_balances self of Inl e \<Rightarrow> Inl e | Inr b \<Rightarrow> Inr (map sint b))"

text \<open>
  What a caller can observe of one call of \<open>transact\<close>: the ledger object as the call
  leaves it, and the exception that ended the call, if any.  The statements are those of
  \<open>transact\<close>, one after the other; a statement that raises ends the call with the
  ledger as the statements before it left it.
\<close>

definition transact_effect ::
  "SimpleLedger \<Rightarrow> int \<Rightarrow> int \<Rightarrow> int \<Rightarrow> SimpleLedger \<times> error option" where
  "transact_effect self amt frm to =
     (case setitem (zeros (num_accounts self)) frm (- amt) of
        Inl e \<Rightarrow> (self, Some e)
      | Inr record1 \<Rightarrow>
          (case setitem record1 to amt of
             Inl e \<Rightarrow> (self, Some e)
           | Inr record2 \<Rightarrow>
               (let candidate_balance = tensor_add (running_balance self) record2;
                    record = tensor_mul_scalar record2 (neg_check candidate_balance);
                    self1 = self\<lparr>transactions := transactions self @ [record]\<rparr>;
                    self2 = self1\<lparr>running_balance :=
                              tensor_add (running_balance self1) record\<rparr>
                in (self2, None))))"

section \<open>DecentralizedLedger (step 3 of the notebook)\<close>

text \<open>
  The decentralized ledger runs the same statements on tensors that are secret-shared
  among its owners.  The sharing engine is not part of the notebook; the ledger only
  uses the operations below on shared values of some type \<open>'s\<close>, and the model takes
  them as a parameter: \<^verbatim>\<open>t.share(*owners)\<close> for owners of some type \<open>'w\<close>, \<^verbatim>\<open>a + b\<close>,
  \<^verbatim>\<open>a - b\<close>, \<^verbatim>\<open>a < b\<close>, \<^verbatim>\<open>a.sum(0)\<close>, \<^verbatim>\<open>a.expand(n)\<close>, \<^verbatim>\<open>k - a\<close> for a
  Python integer \<open>k\<close>, and \<^verbatim>\<open>a * b\<close>.
\<close>

record ('w, 's) smpc =
  share :: "tensor \<Rightarrow> 'w list \<Rightarrow> 's"
  s_add :: "'s \<Rightarrow> 's \<Rightarrow> 's"
  s_sub :: "'s \<Rightarrow> 's \<Rightarrow> 's"
  s_lt :: "'s \<Rightarrow> 's \<Rightarrow> 's"
  s_sum0 :: "'s \<Rightarrow> 's"
  s_expand :: "'s \<Rightarrow> nat \<Rightarrow> 's"
  s_rsub :: "int \<Rightarrow> 's \<Rightarrow> 's"
  s_mul :: "'s \<Rightarrow> 's \<Rightarrow> 's"

record ('w, 's) DecentralizedLedger =
  d_transactions :: "'s list"
  d_owners :: "'w list"
  d_num_accounts :: nat
  d_zeros :: "'s"
  d_running_balance :: "'s"

definition d_compute_balances ::
  "('w, 's) smpc \<Rightarrow> ('w, 's) DecentralizedLedger \<Rightarrow> error + 's" where
  "d_compute_balances eng self =
     (case d_transactions self of
        [] \<Rightarrow> Inl IndexError
      | balance # ts \<Rightarrow> Inr (foldl (s_add eng) balance ts))"

text \<open>
  \<^verbatim>\<open>
  def __init__(self, *owners, num_accounts=10, starting_balance=100):
      self.transactions = list()
      self.owners = owners
      self.num_accounts = num_accounts
      initial_balances = sy.ones(num_accounts).long() * starting_balance
      initial_balances = initial_balances.share(*self.owners)
      self.transactions.append(initial_balances)
      # cache zeros for use in comparison
      self.zeros = initial_balances - initial_balances
      self.running_balance = self.compute_balances()
  \<close>
  \<open>running_balance\<close> does not exist before the last statement; the record holds the
  initial balances there until it is assigned.
\<close>

definition DecentralizedLedger_init ::
  "('w, 's) smpc \<Rightarrow> 'w list \<Rightarrow> nat \<Rightarrow> int \<Rightarrow> error + ('w, 's) DecentralizedLedger" where
  "DecentralizedLedger_init eng owners n starting_balance =
     (if fits_long starting_balance then
        (let initial_balances =
               share eng (tensor_mul_scalar (ones n) starting_balance) owners;
             self = \<lparr>d_transactions = [] @ [initial_balances], d_owners = owners,
                     d_num_accounts = n,
                     d_zeros = s_sub eng initial_balances initial_balances,
                     d_running_balance = initial_balances\<rparr>
         in case d_compute_balances eng self of
              Inl e \<Rightarrow> Inl e
            | Inr b \<Rightarrow> Inr (self\<lparr>d_running_balance := b\<rparr>))
      else Inl OverflowError)"

text \<open>
  \<^verbatim>\<open>
  def transact(self, amt=10, frm=0, to=1):
      record = sy.zeros(self.num_accounts).long()
      record[frm] = -amt
      record[to] = amt
      record = record.share(*self.owners)
      candidate_balance = self.running_balance + record
      neg_check = 1 - (candidate_balance < self.zeros).sum(0).expand(self.num_accounts)
      record = record * neg_check
      self.transactions.append(record)
      self.running_balance = self.running_balance + record
  \<close>
\<close>

definition d_transact ::
  "('w, 's) smpc \<Rightarrow> ('w, 's) DecentralizedLedger \<Rightarrow> int \<Rightarrow> int \<Rightarrow> int \<Rightarrow>
     error + ('w, 's) DecentralizedLedger" where
  "d_transact eng self amt frm to =
     (case build_record (d_num_accounts self) amt frm to of
        Inl e \<Rightarrow> Inl e
      | Inr record0 \<Rightarrow>
          (let record1 = share eng record0 (d_owners self);
               candidate_balance = s_add eng (d_running_balance self) record1;
               neg_check = s_rsub eng 1
                 (s_expand eng (s_sum0 eng (s_lt eng candidate_balance (d_zeros self)))
                    (d_num_accounts self));
               record = s_mul eng record1 neg_check
           in Inr (self\<lparr>d_transactions := d_transactions self @ [record],
                        d_running_balance := s_add eng (d_running_balance self) record\<rparr>)))"

text \<open>
  What one call of the decentralized \<open>transact\<close> does, statement by statement: the ledger
  object as the call leaves it, the plain tensors it has handed to \<^verbatim>\<open>.share(*owners)\<close>,
  in order, and the exception that ended the call, if any.
\<close>

definition d_transact_effect ::
  "('w, 's) smpc \<Rightarrow> ('w, 's) DecentralizedLedger \<Rightarrow> int \<Rightarrow> int \<Rightarrow> int \<Rightarrow>
     ('w, 's) DecentralizedLedger \<times> tensor list \<times> error option" where
  "d_transact_effect eng self amt frm to =
     (case setitem (zeros (d_num_accounts self)) frm (- amt) of
        Inl e \<Rightarrow> (self, [], Some e)
      | Inr record1 \<Rightarrow>
          (case setitem record1 to amt of
             Inl e \<Rightarrow> (self, [], Some e)
           | Inr record2 \<Rightarrow>
               (let record3 = share eng record2 (d_owners self);
                    candidate_balance = s_add eng (d_running_balance self) record3;
                    neg_check = s_rsub eng 1
                      (s_expand eng (s_sum0 eng (s_lt eng candidate_balance (d_zeros self)))
                         (d_num_accounts self));
                    record = s_mul eng record3 neg_check;
                    self1 = self\<lparr>d_transactions := d_transactions self @ [record]\<rparr>;
                    self2 = self1\<lparr>d_running_balance :=
                              s_add eng (d_running_balance self1) record\<rparr>
                in (self2, [record2], None))))"

fun d_transact_seq ::
  "('w, 's) smpc \<Rightarrow> ('w, 's) DecentralizedLedger \<Rightarrow> (int \<times> int \<times> int) list \<Rightarrow>
     error + ('w, 's) DecentralizedLedger" where
  "d_transact_seq eng self [] = Inr self"
| "d_transact_seq eng self ((amt, frm, to) # calls) =
     (case d_transact eng self amt frm to of
        Inl e \<Rightarrow> Inl e
      | Inr self' \<Rightarrow> d_transact_seq eng self' calls)"

text \<open>
  The simplest engine, used to run the decentralized ledger on concrete inputs: every
  value is held in the clear, so that a shared tensor is the tensor, whoever the owners
  (named by their worker ids) are.
\<close>

definition plain_engine :: "(string, tensor) smpc" where
  "plain_engine =
     \<lparr>share = (\<lambda>t owners. t),
      s_add = tensor_add,
      s_sub = (\<lambda>a b. map2 (-) a b),
      s_lt = (\<lambda>a b. map2 (\<lambda>x y. if sint x < sint y then 1 else 0) a b),
      s_sum0 = (\<lambda>a. [sum_list a]),
      s_expand = (\<lambda>a n. concat (map (replicate n) a)),
      s_rsub = (\<lambda>k a. map (\<lambda>x. word_of_int k - x) a),
      s_mul = (\<lambda>a b. map2 (*) a b)\<rparr>"

section \<open>The ledgers the notebook creates\<close>

text \<open>\<^verbatim>\<open>SimpleLedger()\<close>: ten accounts holding 100 each.\<close>

definition default_ledger :: SimpleLedger where
  "default_ledger =
     \<lparr>transactions = [[100, 100, 100, 100, 100, 100, 100, 100, 100, 100]],
      num_accounts = 10,
      running_balance = [100, 100, 100, 100, 100, 100, 100, 100, 100, 100]\<rparr>"

text \<open>
  \<^verbatim>\<open>DecentralizedLedger(jp_norgan, ubz)\<close> with the defaults, run on the plain engine.
\<close>

definition default_d_ledger :: "(string, tensor) DecentralizedLedger" where
  "default_d_ledger =
     \<lparr>d_transactions = [[100, 100, 100, 100, 100, 100, 100, 100, 100, 100]],
      d_owners = [''jp_norgan'', ''ubz''],
      d_num_accounts = 10,
      d_zeros = [0, 0, 0, 0, 0, 0, 0, 0, 0, 0],
      d_running_balance = [100, 100, 100, 100, 100, 100, 100, 100, 100, 100]\<rparr>"

section \<open>Evaluation and basic facts\<close>

lemmas ledger_defs =
  and_then_def SimpleLedger_init_def transact_def compute_balances_def build_record_def
  setitem_def resolve_index_def to_long_def fits_long_def zeros_def ones_def tensor_add_def
  tensor_mul_scalar_def neg_check_def byte_sum_def tensor_lt_zero_def tensor_sum_def
  signed_balances_def default_ledger_def Let_def

lemmas d_ledger_defs =
  DecentralizedLedger_init_def d_transact_def d_compute_balances_def plain_engine_def
  default_d_ledger_def

lemma SimpleLedger_init_default: "SimpleLedger_init 10 100 = Inr default_ledger"
  by (simp add: ledger_defs eval_nat_numeral)

lemma DecentralizedLedger_init_default:
  "DecentralizedLedger_init plain_engine [''jp_norgan'', ''ubz''] 10 100 = Inr default_d_ledger"
  by (simp add: ledger_defs d_ledger_defs eval_nat_numeral)

lemma compute_balances_snoc:
  assumes "compute_balances self = Inr b"
  shows "compute_balances (self\<lparr>transactions := transactions self @ [r], running_balance := c\<rparr>)
         = Inr (tensor_add b r)"
  using assms by (auto simp: compute_balances_def split: list.splits)

lemma SimpleLedger_init_cache:
  assumes "SimpleLedger_init n sb = Inr self"
  shows "compute_balances self = Inr (running_balance self)"
  using assms
  by (auto simp: SimpleLedger_init_def compute_balances_def Let_def split: if_splits)

lemma transact_cache:
  assumes "compute_balances self = Inr (running_balance self)"
    and "transact self amt frm to = Inr self'"
  shows "compute_balances self' = Inr (running_balance self')"
proof -
  from assms(2) obtain r where
    self': "self' = self\<lparr>transactions := transactions self @ [r],
                         running_balance := tensor_add (running_balance self) r\<rparr>"
    by (auto simp: transact_def Let_def split: sum.splits)
  show ?thesis
    unfolding self' using compute_balances_snoc [OF assms(1)] by simp
qed

lemma transact_seq_cache:
  assumes "compute_balances self = Inr (running_balance self)"
    and "transact_seq self calls = Inr self'"
  shows "compute_balances self' = Inr (running_balance self')"
  using assms
proof (induction calls arbitrary: self)
  case Nil
  then show ?case by simp
next
  case (Cons c calls)
  obtain amt frm to where c: "c = (amt, frm, to)" by (cases c)
  from Cons.prems(2) obtain mid where
    step: "transact self amt frm to = Inr mid" and rest: "transact_seq mid calls = Inr self'"
    by (auto simp: c split: sum.splits)
  from transact_cache [OF Cons.prems(1) step] rest show ?case
    by (rule Cons.IH)
qed

lemma d_compute_balances_snoc:
  assumes "d_compute_balances eng self = Inr b"
  shows "d_compute_balances eng
           (self\<lparr>d_transactions := d_transactions self @ [r], d_running_balance := c\<rparr>)
         = Inr (s_add eng b r)"
  using assms by (auto simp: d_compute_balances_def split: list.splits)

lemma DecentralizedLedger_init_cache:
  assumes "DecentralizedLedger_init eng owners n sb = Inr self"
  shows "d_compute_balances eng self = Inr (d_running_balance self)"
  using assms
  by (auto simp: DecentralizedLedger_init_def d_compute_balances_def Let_def split: if_splits)

lemma d_transact_cache:
  assumes "d_compute_balances eng self = Inr (d_running_balance self)"
    and "d_transact eng self amt frm to = Inr self'"
  shows "d_compute_balances eng self' = Inr (d_running_balance self')"
proof -
  from assms(2) obtain r where
    self': "self' = self\<lparr>d_transactions := d_transactions self @ [r],
                         d_running_balance := s_add eng (d_running_balance self) r\<rparr>"
    by (auto simp: d_transact_def Let_def split: sum.splits)
  show ?thesis
    unfolding self' using d_compute_balances_snoc [OF assms(1)] by simp
qed

lemma d_transact_seq_cache:
  assumes "d_compute_balances eng self = Inr (d_running_balance self)"
    and "d_transact_seq eng self calls = Inr self'"
  shows "d_compute_balances eng self' = Inr (d_running_balance self')"
  using assms
proof (induction calls arbitrary: self)
  case Nil
  then show ?case by simp
next
  case (Cons c calls)
  obtain amt frm to where c: "c = (amt, frm, to)" by (cases c)
  from Cons.prems(2) obtain mid where
    step: "d_transact eng self amt frm to = Inr mid"
    and rest: "d_transact_seq eng mid calls = Inr self'"
    by (auto simp: c split: sum.splits)
  from d_transact_cache [OF Cons.prems(1) step] rest show ?case
    by (rule Cons.IH)
qed

section \<open>The sum invariant\<close>

text \<open>
  Claim C1.  For a ledger of either kind, in the state its constructor leaves and after
  every call of \<open>transact\<close> that follows, \<open>compute_balances()\<close> (the entries of the
  transactions log added up entry by entry, starting from the initial balance vector)
  returns exactly the cached \<open>running_balance\<close>.  For the decentralized ledger this holds
  whatever the sharing engine computes.
\<close>

theorem compute_balances_eq_running_balance:
  "(SimpleLedger_init n sb = Inr l0 \<longrightarrow> transact_seq l0 calls = Inr l \<longrightarrow>
      compute_balances l = Inr (running_balance l)) \<and>
   (DecentralizedLedger_init eng owners n sb = Inr d0 \<longrightarrow>
      d_transact_seq eng d0 calls = Inr d \<longrightarrow>
      d_compute_balances eng d = Inr (d_running_balance d))"
  using transact_seq_cache [OF SimpleLedger_init_cache]
    d_transact_seq_cache [OF DecentralizedLedger_init_cache]
  by blast

theorem compute_balances_eq_running_balance_witness:
  "SimpleLedger_init 10 100 = Inr default_ledger \<and>
   transact_seq default_ledger [(100, 0, 1), (100, 0, 1)] =
     Inr \<lparr>transactions = [[100, 100, 100, 100, 100, 100, 100, 100, 100, 100],
                           [- 100, 100, 0, 0, 0, 0, 0, 0, 0, 0],
                           [0, 0, 0, 0, 0, 0, 0, 0, 0, 0]],
          num_accounts = 10,
          running_balance = [0, 200, 100, 100, 100, 100, 100, 100, 100, 100]\<rparr> \<and>
   compute_balances
        \<lparr>transactions = [[100, 100, 100, 100, 100, 100, 100, 100, 100, 100],
                           [- 100, 100, 0, 0, 0, 0, 0, 0, 0, 0],
                           [0, 0, 0, 0, 0, 0, 0, 0, 0, 0]],
          num_accounts = 10,
          running_balance = [0, 200, 100, 100, 100, 100, 100, 100, 100, 100]\<rparr>
     = Inr [0, 200, 100, 100, 100, 100, 100, 100, 100, 100] \<and>
   DecentralizedLedger_init plain_engine [''jp_norgan'', ''ubz''] 10 100 = Inr default_d_ledger \<and>
   d_transact_seq plain_engine default_d_ledger [(100, 0, 1), (100, 0, 1)] =
     Inr \<lparr>d_transactions = [[100, 100, 100, 100, 100, 100, 100, 100, 100, 100],
                             [- 100, 100, 0, 0, 0, 0, 0, 0, 0, 0],
                             [0, 0, 0, 0, 0, 0, 0, 0, 0, 0]],
          d_owners = [''jp_norgan'', ''ubz''],
          d_num_accounts = 10,
          d_zeros = [0, 0, 0, 0, 0, 0, 0, 0, 0, 0],
          d_running_balance = [0, 200, 100, 100, 100, 100, 100, 100, 100, 100]\<rparr> \<and>
   d_compute_balances plain_engine
        \<lparr>d_transactions = [[100, 100, 100, 100, 100, 100, 100, 100, 100, 100],
                             [- 100, 100, 0, 0, 0, 0, 0, 0, 0, 0],
                             [0, 0, 0, 0, 0, 0, 0, 0, 0, 0]],
          d_owners = [''jp_norgan'', ''ubz''],
          d_num_accounts = 10,
          d_zeros = [0, 0, 0, 0, 0, 0, 0, 0, 0, 0],
          d_running_balance = [0, 200, 100, 100, 100, 100, 100, 100, 100, 100]\<rparr>
     = Inr [0, 200, 100, 100, 100, 100, 100, 100, 100, 100]"
proof -
  let ?l = "\<lparr>transactions = [[100, 100, 100, 100, 100, 100, 100, 100, 100, 100],
                           [- 100, 100, 0, 0, 0, 0, 0, 0, 0, 0],
                           [0, 0, 0, 0, 0, 0, 0, 0, 0, 0]],
          num_accounts = 10,
          running_balance = [0, 200, 100, 100, 100, 100, 100, 100, 100, 100 :: long]\<rparr>"
  let ?d = "\<lparr>d_transactions = [[100, 100, 100, 100, 100, 100, 100, 100, 100, 100],
                             [- 100, 100, 0, 0, 0, 0, 0, 0, 0, 0],
                             [0, 0, 0, 0, 0, 0, 0, 0, 0, 0]],
          d_owners = [''jp_norgan'', ''ubz''],
          d_num_accounts = 10,
          d_zeros = [0, 0, 0, 0, 0, 0, 0, 0, 0, 0],
          d_running_balance = [0, 200, 100, 100, 100, 100, 100, 100, 100, 100 :: long]\<rparr>"
  have a: "SimpleLedger_init 10 100 = Inr default_ledger"
    by (rule SimpleLedger_init_default)
  have b: "transact_seq default_ledger [(100, 0, 1), (100, 0, 1)] = Inr ?l"
    by (simp add: ledger_defs eval_nat_numeral)
  have c: "DecentralizedLedger_init plain_engine [''jp_norgan'', ''ubz''] 10 100 = Inr default_d_ledger"
    by (rule DecentralizedLedger_init_default)
  have d: "d_transact_seq plain_engine default_d_ledger [(100, 0, 1), (100, 0, 1)] = Inr ?d"
    by (simp add: ledger_defs d_ledger_defs eval_nat_numeral)
  from compute_balances_eq_running_balance
    [where n = 10 and sb = 100 and ?l0.0 = default_ledger and calls = "[(100, 0, 1), (100, 0, 1)]"
      and l = ?l and eng = plain_engine and owners = "[''jp_norgan'', ''ubz'']"
      and ?d0.0 = default_d_ledger and d = ?d]
  have "compute_balances ?l = Inr (running_balance ?l)"
    and "d_compute_balances plain_engine ?d = Inr (d_running_balance ?d)"
    using a b c d by blast+
  with a b c d show ?thesis by simp
qed

section \<open>Indices, records and the validation mask\<close>

subsection \<open>Index resolution and the record of a transfer\<close>

lemma fits_long_abs: "\<bar>v\<bar> < 2 ^ 63 \<Longrightarrow> fits_long v \<and> fits_long (- v)"
  by (auto simp: fits_long_def)

lemma to_long_abs:
  assumes "\<bar>v\<bar> < 2 ^ 63"
  shows "to_long v = Inr (word_of_int v)" and "to_long (- v) = Inr (- word_of_int v)"
  using fits_long_abs [OF assms] by (simp_all add: to_long_def)

lemma resolve_index_in_range:
  assumes "\<bar>i\<bar> < 2 ^ 63" and "- int n \<le> i" and "i < int n"
  shows "resolve_index n i = Inr (nat (if i < 0 then int n + i else i))"
  using assms(2,3) fits_long_abs [OF assms(1)] by (simp add: resolve_index_def Let_def)

lemma resolve_index_out_of_range:
  assumes "\<bar>i\<bar> < 2 ^ 63" and "i < - int n \<or> int n \<le> i"
  shows "resolve_index n i = Inl IndexError"
  using assms(2) fits_long_abs [OF assms(1)] by (auto simp: resolve_index_def Let_def)

lemma resolve_index_IndexError:
  assumes "resolve_index n i = Inl IndexError"
  shows "i < - int n \<or> int n \<le> i"
  using assms by (auto simp: resolve_index_def Let_def split: if_splits)

lemma resolve_index_less: "resolve_index n i = Inr k \<Longrightarrow> k < n"
  by (auto simp: resolve_index_def Let_def split: if_splits)

lemma resolve_index_position:
  assumes "k < n" and "int n < 2 ^ 63"
  shows "resolve_index n (int k) = Inr k"
  using assms by (simp add: resolve_index_def Let_def fits_long_def)

lemma setitem_length: "setitem t i v = Inr t' \<Longrightarrow> length t' = length t"
  by (auto simp: setitem_def split: sum.splits)

lemma build_record_length: "build_record n amt frm to = Inr r \<Longrightarrow> length r = n"
  by (auto simp: build_record_def zeros_def split: sum.splits dest!: setitem_length)

text \<open>
  With an amount whose value and negation fit 64 bits, the record is decided by the two
  index resolutions alone.
\<close>

lemma build_record_fits:
  assumes "\<bar>amt\<bar> < 2 ^ 63"
  shows "build_record n amt frm to =
           (case resolve_index n frm of
              Inl e \<Rightarrow> Inl e
            | Inr kf \<Rightarrow>
               (case resolve_index n to of
                  Inl e \<Rightarrow> Inl e
                | Inr kt \<Rightarrow> Inr ((zeros n)[kf := - word_of_int amt, kt := word_of_int amt])))"
  by (simp add: build_record_def setitem_def to_long_abs [OF assms] zeros_def split: sum.splits)

lemma build_record_in_range:
  assumes "\<bar>amt\<bar> < 2 ^ 63" and "\<bar>frm\<bar> < 2 ^ 63" and "\<bar>to\<bar> < 2 ^ 63"
    and "- int n \<le> frm" and "frm < int n" and "- int n \<le> to" and "to < int n"
  shows "build_record n amt frm to =
     Inr ((zeros n)[nat (if frm < 0 then int n + frm else frm) := - word_of_int amt,
                    nat (if to < 0 then int n + to else to) := word_of_int amt])"
  by (simp only: build_record_fits [OF assms(1)] resolve_index_in_range [OF assms(2,4,5)]
      resolve_index_in_range [OF assms(3,6,7)] sum.case)

lemma build_record_out_of_range:
  assumes "\<bar>amt\<bar> < 2 ^ 63" and "\<bar>frm\<bar> < 2 ^ 63" and "\<bar>to\<bar> < 2 ^ 63"
    and "frm < - int n \<or> int n \<le> frm \<or> to < - int n \<or> int n \<le> to"
  shows "build_record n amt frm to = Inl IndexError"
proof (cases "frm < - int n \<or> int n \<le> frm")
  case True
  then show ?thesis
    by (simp add: build_record_fits [OF assms(1)] resolve_index_out_of_range [OF assms(2)])
next
  case False
  with assms(4) have "to < - int n \<or> int n \<le> to" by blast
  then have "resolve_index n to = Inl IndexError"
    by (rule resolve_index_out_of_range [OF assms(3)])
  then show ?thesis
    by (simp add: build_record_fits [OF assms(1)] split: sum.splits)
      (use False resolve_index_in_range [OF assms(2), of n] in auto)
qed

lemma setitem_IndexError:
  assumes "setitem t i v = Inl IndexError"
  shows "resolve_index (length t) i = Inl IndexError"
  using assms by (auto simp: setitem_def to_long_def split: sum.splits if_splits)

lemma build_record_IndexError:
  assumes "build_record n amt frm to = Inl IndexError"
  shows "frm < - int n \<or> int n \<le> frm \<or> to < - int n \<or> int n \<le> to"
proof (cases "setitem (zeros n) frm (- amt)")
  case (Inl e)
  with assms have "setitem (zeros n) frm (- amt) = Inl IndexError"
    by (simp add: build_record_def)
  from setitem_IndexError [OF this] have "resolve_index n frm = Inl IndexError"
    by (simp add: zeros_def)
  from resolve_index_IndexError [OF this] show ?thesis by blast
next
  case (Inr r)
  with assms have "setitem r to amt = Inl IndexError"
    by (simp add: build_record_def)
  from setitem_IndexError [OF this] setitem_length [OF Inr]
  have "resolve_index n to = Inl IndexError"
    by (simp add: zeros_def)
  from resolve_index_IndexError [OF this] show ?thesis by blast
qed

text \<open>Both ledgers do with the record what their statements say, and fail only with it.\<close>

lemma transact_Inl:
  "transact self amt frm to = Inl e \<longleftrightarrow> build_record (num_accounts self) amt frm to = Inl e"
  by (auto simp: transact_def Let_def split: sum.splits)

lemma d_transact_Inl:
  "d_transact eng self amt frm to = Inl e \<longleftrightarrow>
     build_record (d_num_accounts self) amt frm to = Inl e"
  by (auto simp: d_transact_def Let_def split: sum.splits)

lemma transact_eq_build:
  "build_record (num_accounts self) amt frm to = build_record (num_accounts self) amt' frm' to' \<Longrightarrow>
   transact self amt frm to = transact self amt' frm' to'"
  by (simp add: transact_def)

lemma d_transact_eq_build:
  "build_record (d_num_accounts self) amt frm to =
     build_record (d_num_accounts self) amt' frm' to' \<Longrightarrow>
   d_transact eng self amt frm to = d_transact eng self amt' frm' to'"
  by (simp add: d_transact_def)

lemma transact_effect_eq:
  "transact_effect self amt frm to =
     (case transact self amt frm to of
        Inl e \<Rightarrow> (self, Some e)
      | Inr self' \<Rightarrow> (self', None))"
  by (simp add: transact_effect_def transact_def build_record_def Let_def split: sum.splits)

lemma d_transact_effect_eq:
  "d_transact_effect eng self amt frm to =
     (case build_record (d_num_accounts self) amt frm to of
        Inl e \<Rightarrow> (self, [], Some e)
      | Inr r \<Rightarrow>
         (case d_transact eng self amt frm to of
            Inl e \<Rightarrow> (self, [], Some e)
          | Inr self' \<Rightarrow> (self', [r], None)))"
  by (simp add: d_transact_effect_def d_transact_def build_record_def Let_def split: sum.splits)

text \<open>The number of accounts of a decentralized ledger never changes.\<close>

lemma DecentralizedLedger_init_num_accounts:
  assumes "DecentralizedLedger_init eng owners n sb = Inr self"
  shows "d_num_accounts self = n"
  using assms
  by (auto simp: DecentralizedLedger_init_def d_compute_balances_def Let_def split: if_splits)

lemma d_transact_num_accounts:
  assumes "d_transact eng self amt frm to = Inr self'"
  shows "d_num_accounts self' = d_num_accounts self"
  using assms by (auto simp: d_transact_def Let_def split: sum.splits)

lemma d_transact_seq_num_accounts:
  assumes "d_transact_seq eng self calls = Inr self'"
  shows "d_num_accounts self' = d_num_accounts self"
  using assms
proof (induction calls arbitrary: self)
  case Nil
  then show ?case by simp
next
  case (Cons c calls)
  obtain amt frm to where c: "c = (amt, frm, to)" by (cases c)
  from Cons.prems obtain mid where
    step: "d_transact eng self amt frm to = Inr mid"
    and rest: "d_transact_seq eng mid calls = Inr self'"
    by (auto simp: c split: sum.splits)
  from Cons.IH [OF rest] d_transact_num_accounts [OF step] show ?case by simp
qed


subsection \<open>Sums, sizes and the mask\<close>

lemma byte_sum_tensor_lt_zero:
  "byte_sum (tensor_lt_zero c) = int (length (filter (\<lambda>x. sint x < 0) c))"
  by (induction c) (simp_all add: byte_sum_def tensor_lt_zero_def)

lemma neg_check_le_1: "neg_check c \<le> 1"
  by (simp add: neg_check_def byte_sum_tensor_lt_zero)

lemma neg_check_eq_1_iff: "neg_check c = 1 \<longleftrightarrow> list_all (\<lambda>x. 0 \<le> sint x) c"
  by (simp add: neg_check_def byte_sum_tensor_lt_zero filter_empty_conv list_all_iff not_less)

lemma tensor_sum_update:
  "k < length t \<Longrightarrow> tensor_sum (t[k := v]) = tensor_sum t - t ! k + v"
  unfolding tensor_sum_def
  by (induction t arbitrary: k) (auto split: nat.splits)

lemma length_zeros [simp]: "length (zeros n) = n"
  by (simp add: zeros_def)

lemma nth_zeros [simp]: "k < n \<Longrightarrow> zeros n ! k = 0"
  by (simp add: zeros_def)

lemma length_tensor_mul_scalar [simp]: "length (tensor_mul_scalar t k) = length t"
  by (simp add: tensor_mul_scalar_def)

lemma length_tensor_add [simp]: "length (tensor_add a b) = min (length a) (length b)"
  by (simp add: tensor_add_def)

lemma tensor_sum_zeros: "tensor_sum (zeros n) = 0"
  by (simp add: tensor_sum_def zeros_def sum_list_replicate)

lemma tensor_sum_mul_scalar: "tensor_sum (tensor_mul_scalar t k) = tensor_sum t * word_of_int k"
  by (simp add: tensor_sum_def tensor_mul_scalar_def sum_list_mult_const)

lemma tensor_sum_add:
  "length a = length b \<Longrightarrow> tensor_sum (tensor_add a b) = tensor_sum a + tensor_sum b"
  unfolding tensor_sum_def tensor_add_def
  by (induction a b rule: list_induct2) simp_all

lemma build_record_sum:
  assumes "build_record n amt frm to = Inr r"
    and "resolve_index n frm \<noteq> resolve_index n to"
  shows "tensor_sum r = 0"
proof -
  from assms(1) obtain kf kt where
    kf: "resolve_index n frm = Inr kf" and kt: "resolve_index n to = Inr kt"
    and r: "r = (zeros n)[kf := word_of_int (- amt), kt := word_of_int amt]"
    by (auto simp: build_record_def setitem_def to_long_def zeros_def split: sum.splits if_splits)
  from kf kt have lt: "kf < n" "kt < n"
    by (auto dest: resolve_index_less)
  from assms(2) kf kt have ne: "kf \<noteq> kt" by simp
  show ?thesis
    using lt ne by (simp add: r tensor_sum_update tensor_sum_zeros)
qed

lemma transact_conserves:
  assumes "length (running_balance self) = num_accounts self"
    and "resolve_index (num_accounts self) frm \<noteq> resolve_index (num_accounts self) to"
    and "transact self amt frm to = Inr self'"
  shows "tensor_sum (last (transactions self')) = 0"
    and "tensor_sum (running_balance self') = tensor_sum (running_balance self)"
    and "length (running_balance self') = num_accounts self'"
proof -
  from assms(3) obtain r where r: "build_record (num_accounts self) amt frm to = Inr r"
    and self': "self' = self\<lparr>transactions := transactions self @
          [tensor_mul_scalar r (neg_check (tensor_add (running_balance self) r))],
        running_balance := tensor_add (running_balance self)
          (tensor_mul_scalar r (neg_check (tensor_add (running_balance self) r)))\<rparr>"
    by (auto simp: transact_def Let_def split: sum.splits)
  have len: "length r = num_accounts self"
    using r by (rule build_record_length)
  have zero: "tensor_sum r = 0"
    using r assms(2) by (rule build_record_sum)
  show "tensor_sum (last (transactions self')) = 0"
    by (simp add: self' tensor_sum_mul_scalar zero)
  show "tensor_sum (running_balance self') = tensor_sum (running_balance self)"
    using len assms(1)
    by (simp add: self' tensor_sum_add tensor_sum_mul_scalar zero)
  show "length (running_balance self') = num_accounts self'"
    using len assms(1) by (simp add: self')
qed

lemma tensor_add_zeros: "tensor_add b (zeros (length b)) = b"
  unfolding tensor_add_def zeros_def
  by (induction b) simp_all

lemma tensor_mul_scalar_zero: "tensor_mul_scalar r 0 = zeros (length r)"
  by (simp add: tensor_mul_scalar_def zeros_def map_replicate_const)

lemma tensor_mul_scalar_one: "tensor_mul_scalar r 1 = r"
  by (simp add: tensor_mul_scalar_def)

lemma transact_one_negative_rejected:
  assumes "length (running_balance self) = num_accounts self"
    and "build_record (num_accounts self) amt frm to = Inr r"
    and "neg_check (tensor_add (running_balance self) r) = 0"
  shows "transact self amt frm to =
     Inr (self\<lparr>transactions := transactions self @ [zeros (num_accounts self)]\<rparr>)"
  using assms build_record_length [OF assms(2)] tensor_add_zeros [of "running_balance self"]
  by (simp add: transact_def Let_def tensor_mul_scalar_zero)

lemma transact_none_negative_committed:
  assumes "build_record (num_accounts self) amt frm to = Inr r"
    and "list_all (\<lambda>x. 0 \<le> sint x) (tensor_add (running_balance self) r)"
  shows "transact self amt frm to =
     Inr (self\<lparr>transactions := transactions self @ [r],
               running_balance := tensor_add (running_balance self) r\<rparr>)"
  using assms neg_check_eq_1_iff [of "tensor_add (running_balance self) r"]
  by (simp add: transact_def Let_def tensor_mul_scalar_one)

lemma transact_mask_nonneg_keeps_balances_nonneg:
  assumes "length (running_balance self) = num_accounts self"
    and "list_all (\<lambda>x. 0 \<le> sint x) (running_balance self)"
    and "build_record (num_accounts self) amt frm to = Inr r"
    and "0 \<le> neg_check (tensor_add (running_balance self) r)"
    and "transact self amt frm to = Inr self'"
  shows "list_all (\<lambda>x. 0 \<le> sint x) (running_balance self')"
proof (cases "neg_check (tensor_add (running_balance self) r) = 0")
  case True
  from transact_one_negative_rejected [OF assms(1,3) True] assms(2,5)
  show ?thesis by auto
next
  case False
  with assms(4) neg_check_le_1 [of "tensor_add (running_balance self) r"]
  have "neg_check (tensor_add (running_balance self) r) = 1" by simp
  then have ok: "list_all (\<lambda>x. 0 \<le> sint x) (tensor_add (running_balance self) r)"
    by (simp add: neg_check_eq_1_iff)
  from transact_none_negative_committed [OF assms(3) ok] assms(5)
  show ?thesis using ok by auto
qed

text \<open>
  In every state a ledger reaches, the running balance and every entry of the log have
  \<open>num_accounts\<close> entries: \<open>tensor_add\<close> never meets tensors of different sizes.
\<close>

lemma SimpleLedger_init_sizes:
  assumes "SimpleLedger_init n sb = Inr self"
  shows "num_accounts self = n \<and> length (running_balance self) = n \<and>
     list_all (\<lambda>t. length t = n) (transactions self)"
  using assms
  by (auto simp: SimpleLedger_init_def compute_balances_def ones_def Let_def split: if_splits)

lemma transact_sizes:
  assumes "length (running_balance self) = num_accounts self"
    and "list_all (\<lambda>t. length t = num_accounts self) (transactions self)"
    and "transact self amt frm to = Inr self'"
  shows "num_accounts self' = num_accounts self \<and>
     length (running_balance self') = num_accounts self \<and>
     list_all (\<lambda>t. length t = num_accounts self) (transactions self')"
proof -
  from assms(3) obtain r where r: "build_record (num_accounts self) amt frm to = Inr r"
    and self': "self' = self\<lparr>transactions := transactions self @
          [tensor_mul_scalar r (neg_check (tensor_add (running_balance self) r))],
        running_balance := tensor_add (running_balance self)
          (tensor_mul_scalar r (neg_check (tensor_add (running_balance self) r)))\<rparr>"
    by (auto simp: transact_def Let_def split: sum.splits)
  from build_record_length [OF r] assms(1,2) show ?thesis
    by (simp add: self')
qed

lemma transact_seq_sizes:
  assumes "length (running_balance self) = num_accounts self"
    and "list_all (\<lambda>t. length t = num_accounts self) (transactions self)"
    and "transact_seq self calls = Inr self'"
  shows "num_accounts self' = num_accounts self \<and>
     length (running_balance self') = num_accounts self \<and>
     list_all (\<lambda>t. length t = num_accounts self) (transactions self')"
  using assms
proof (induction calls arbitrary: self)
  case Nil
  then show ?case by simp
next
  case (Cons c calls)
  obtain amt frm to where c: "c = (amt, frm, to)" by (cases c)
  from Cons.prems(3) obtain mid where
    step: "transact self amt frm to = Inr mid" and rest: "transact_seq mid calls = Inr self'"
    by (auto simp: c split: sum.splits)
  from transact_sizes [OF Cons.prems(1,2) step]
  have mid: "num_accounts mid = num_accounts self"
    "length (running_balance mid) = num_accounts mid"
    "list_all (\<lambda>t. length t = num_accounts mid) (transactions mid)"
    by simp_all
  from Cons.IH [OF mid(2,3) rest] mid(1) show ?case by simp
qed

subsection \<open>Ledgers reached from the constructor, and what a validated record does\<close>

lemma reached_sizes:
  assumes "SimpleLedger_init n sb = Inr l0" and "transact_seq l0 calls = Inr self"
  shows "num_accounts self = n" and "length (running_balance self) = n"
proof -
  from SimpleLedger_init_sizes [OF assms(1)]
  have l0: "length (running_balance l0) = num_accounts l0"
    "list_all (\<lambda>t. length t = num_accounts l0) (transactions l0)" "num_accounts l0 = n"
    by simp_all
  from transact_seq_sizes [OF l0(1,2) assms(2)] l0(3)
  show "num_accounts self = n" and "length (running_balance self) = n"
    by simp_all
qed

lemma d_reached_num_accounts:
  assumes "DecentralizedLedger_init eng owners n sb = Inr d0"
    and "d_transact_seq eng d0 calls = Inr d"
  shows "d_num_accounts d = n"
  using d_transact_seq_num_accounts [OF assms(2)] DecentralizedLedger_init_num_accounts [OF assms(1)]
  by simp

lemma transact_built:
  assumes "build_record (num_accounts self) amt frm to = Inr r"
  shows "transact self amt frm to =
     Inr (self\<lparr>transactions := transactions self @
                 [tensor_mul_scalar r (neg_check (tensor_add (running_balance self) r))],
               running_balance := tensor_add (running_balance self)
                 (tensor_mul_scalar r (neg_check (tensor_add (running_balance self) r)))\<rparr>)"
  using assms by (simp add: transact_def Let_def)

lemma d_transact_built:
  assumes "build_record (d_num_accounts self) amt frm to = Inr r"
  shows "d_transact eng self amt frm to =
     Inr (self\<lparr>d_transactions := d_transactions self @
                 [s_mul eng (share eng r (d_owners self))
                    (s_rsub eng 1 (s_expand eng (s_sum0 eng (s_lt eng
                       (s_add eng (d_running_balance self) (share eng r (d_owners self)))
                       (d_zeros self))) (d_num_accounts self)))],
               d_running_balance := s_add eng (d_running_balance self)
                 (s_mul eng (share eng r (d_owners self))
                    (s_rsub eng 1 (s_expand eng (s_sum0 eng (s_lt eng
                       (s_add eng (d_running_balance self) (share eng r (d_owners self)))
                       (d_zeros self))) (d_num_accounts self))))\<rparr>)"
  using assms by (simp add: d_transact_def Let_def)

lemma tensor_add_update:
  assumes "k < length a" and "length b = length a"
  shows "tensor_add a (b[k := v]) = (tensor_add a b)[k := a ! k + v]"
proof -
  have "zip a (b[k := v]) = (zip a b)[k := (a ! k, v)]"
    using zip_update [of a k "a ! k" b v] by simp
  then show ?thesis
    by (simp add: tensor_add_def map_update)
qed

lemma tensor_add_transfer:
  assumes "length b = n" and "kf < n" and "kt < n" and "kf \<noteq> kt"
  shows "tensor_add b ((zeros n)[kf := - v, kt := v]) = b[kf := b ! kf - v, kt := b ! kt + v]"
proof -
  have "tensor_add b ((zeros n)[kf := - v]) = b[kf := b ! kf - v]"
    using assms(1,2) tensor_add_zeros [of b] by (simp add: tensor_add_update)
  moreover have "tensor_add b ((zeros n)[kf := - v, kt := v]) =
      (tensor_add b ((zeros n)[kf := - v]))[kt := b ! kt + v]"
    using assms(1,3) by (simp add: tensor_add_update)
  ultimately show ?thesis by simp
qed

section \<open>The validation mask\<close>

text \<open>
  Claim C2.  The claim: the mask the validation step computes is 0 or 1, and it is 1
  exactly when no entry of \<open>running_balance + record\<close> is negative, also when several
  entries are negative.  The code computes \<open>1 - count\<close>, where \<open>count\<close> is the number of
  negative entries (see \<open>neg_check_le_1\<close> and \<open>neg_check_eq_1_iff\<close> for the part that
  holds).  With two negative entries the mask is \<open>- 1\<close>: on the default ledger the
  transfer of \<open>2 ^ 63 - 1\<close> from account 0 to account 1 makes both candidate entries
  negative (the credited one by wrap-around), and on balances \<open>[- 5, - 5]\<close> the record
  \<open>[- 1, 1]\<close> does so without any wrap-around.
\<close>

theorem neg_check_two_negative_entries:
  "build_record 10 9223372036854775807 0 1 =
     Inr [- 9223372036854775807, 9223372036854775807, 0, 0, 0, 0, 0, 0, 0, 0] \<and>
   map sint (tensor_add (running_balance default_ledger)
     [- 9223372036854775807, 9223372036854775807, 0, 0, 0, 0, 0, 0, 0, 0]) =
     [- 9223372036854775707, - 9223372036854775709, 100, 100, 100, 100, 100, 100, 100, 100] \<and>
   neg_check (tensor_add (running_balance default_ledger)
     [- 9223372036854775807, 9223372036854775807, 0, 0, 0, 0, 0, 0, 0, 0]) = - 1 \<and>
   build_record 2 1 0 1 = Inr [- 1, 1] \<and>
   neg_check (tensor_add [- 5, - 5] [- 1, 1]) = - 1"
  by (simp add: ledger_defs eval_nat_numeral)

section \<open>Self-transfers\<close>

text \<open>
  Claim C3.  The claim: \<open>transact(amount, i, i)\<close> builds the all-zero record and leaves every
  balance unchanged.  In the code the store \<open>record[to] = amt\<close> overwrites the entry that
  \<open>record[frm] = -amt\<close> has just written, so the record holds \<open>amt\<close> at \<open>i\<close>: on the
  default ledger \<open>transact(5, 0, 0)\<close> builds \<open>[5, 0, \<dots>, 0]\<close> and account 0 ends with 105.
\<close>

theorem self_transfer_credits_account:
  "build_record 10 5 0 0 = Inr [5, 0, 0, 0, 0, 0, 0, 0, 0, 0] \<and>
   signed_balances default_ledger = Inr [100, 100, 100, 100, 100, 100, 100, 100, 100, 100] \<and>
   and_then (transact default_ledger 5 0 0) signed_balances =
     Inr [105, 100, 100, 100, 100, 100, 100, 100, 100, 100]"
  by (simp add: ledger_defs eval_nat_numeral)

section \<open>Errors\<close>

text \<open>
  Claim C4, as stated: \<open>transact\<close> raises an error whenever \<open>from\<close> or \<open>to\<close> is outside
  \<open>[0, N)\<close> and whenever \<open>amount \<le> 0\<close>.  It does not: on the default ledger
  \<open>transact(-5, -1, 0)\<close>, with a negative amount and the index \<open>- 1\<close>, returns normally and
  appends the record that moves 5 from account 0 to account 9.
\<close>

theorem nonpositive_amount_negative_index_accepted:
  "transact default_ledger (- 5) (- 1) 0 =
     Inr \<lparr>transactions = [[100, 100, 100, 100, 100, 100, 100, 100, 100, 100],
                          [- 5, 0, 0, 0, 0, 0, 0, 0, 0, 5]],
          num_accounts = 10,
          running_balance = [95, 100, 100, 100, 100, 100, 100, 100, 100, 105]\<rparr>"
  by (simp add: ledger_defs eval_nat_numeral)

text \<open>
  Claim C4, amended.  Take a ledger of \<open>N\<close> accounts of either kind, reached from its
  constructor by calls of \<open>transact\<close>, an amount \<open>a\<close> with \<open>\<bar>a\<bar> < 2 ^ 63\<close> (so that \<open>a\<close>
  and \<open>- a\<close> fit a tensor entry) and indices with \<open>\<bar>from\<bar> < 2 ^ 63\<close> and
  \<open>\<bar>to\<bar> < 2 ^ 63\<close>.  Then \<open>transact\<close> raises an index error whenever \<open>from\<close> or \<open>to\<close> is
  outside \<open>[- N, N)\<close>, and the call ends with nothing shared and with the ledger exactly
  as it was, so nothing is appended.  There is no check of the amount: whenever both
  indices are in \<open>[- N, N)\<close> the call returns normally, whatever the sign of \<open>a\<close>, with
  exactly one record appended to the log (and, in the decentralized ledger, exactly one
  tensor shared).
\<close>

theorem transact_checks_indices_only:
  assumes "SimpleLedger_init n sb = Inr l0" and "transact_seq l0 calls = Inr self"
    and "DecentralizedLedger_init eng owners n sb' = Inr d0"
    and "d_transact_seq eng d0 calls' = Inr d"
    and "\<bar>amt\<bar> < 2 ^ 63" and "\<bar>frm\<bar> < 2 ^ 63" and "\<bar>to\<bar> < 2 ^ 63"
  shows "(frm < - int n \<or> int n \<le> frm \<or> to < - int n \<or> int n \<le> to \<longrightarrow>
            transact self amt frm to = Inl IndexError \<and>
            transact_effect self amt frm to = (self, Some IndexError) \<and>
            d_transact eng d amt frm to = Inl IndexError \<and>
            d_transact_effect eng d amt frm to = (d, [], Some IndexError)) \<and>
         (- int n \<le> frm \<and> frm < int n \<and> - int n \<le> to \<and> to < int n \<longrightarrow>
            (\<exists>self' r. transact self amt frm to = Inr self' \<and>
               transact_effect self amt frm to = (self', None) \<and>
               transactions self' = transactions self @ [r]) \<and>
            (\<exists>d' r rs. d_transact eng d amt frm to = Inr d' \<and>
               d_transact_effect eng d amt frm to = (d', [r], None) \<and>
               d_transactions d' = d_transactions d @ [rs]))"
proof (intro conjI impI)
  have n: "num_accounts self = n" "d_num_accounts d = n"
    using reached_sizes(1) [OF assms(1,2)] d_reached_num_accounts [OF assms(3,4)] by simp_all
  {
    assume "frm < - int n \<or> int n \<le> frm \<or> to < - int n \<or> int n \<le> to"
    then have err: "build_record n amt frm to = Inl IndexError"
      by (rule build_record_out_of_range [OF assms(5-7)])
    then show "transact self amt frm to = Inl IndexError"
      and "d_transact eng d amt frm to = Inl IndexError"
      by (simp_all add: transact_Inl d_transact_Inl n)
    then show "transact_effect self amt frm to = (self, Some IndexError)"
      and "d_transact_effect eng d amt frm to = (d, [], Some IndexError)"
      using err by (simp_all add: transact_effect_eq d_transact_effect_eq n)
  }
  {
    assume "- int n \<le> frm \<and> frm < int n \<and> - int n \<le> to \<and> to < int n"
    then obtain r where r: "build_record n amt frm to = Inr r"
      using build_record_in_range [OF assms(5-7), of n] by blast
    show "\<exists>self' r. transact self amt frm to = Inr self' \<and>
               transact_effect self amt frm to = (self', None) \<and>
               transactions self' = transactions self @ [r]"
      using transact_built [of self amt frm to r] r
      by (simp add: transact_effect_eq n)
    show "\<exists>d' r rs. d_transact eng d amt frm to = Inr d' \<and>
               d_transact_effect eng d amt frm to = (d', [r], None) \<and>
               d_transactions d' = d_transactions d @ [rs]"
      using d_transact_built [of d amt frm to r eng] r
      by (simp add: d_transact_effect_eq n)
  }
qed

theorem transact_checks_indices_only_witness:
  "SimpleLedger_init 10 100 = Inr default_ledger \<and>
   transact_seq default_ledger [] = Inr default_ledger \<and>
   DecentralizedLedger_init plain_engine [''jp_norgan'', ''ubz''] 10 100 = Inr default_d_ledger \<and>
   d_transact_seq plain_engine default_d_ledger [] = Inr default_d_ledger \<and>
   \<bar>0 :: int\<bar> < 2 ^ 63 \<and> \<bar>10 :: int\<bar> < 2 ^ 63 \<and> \<bar>1 :: int\<bar> < 2 ^ 63 \<and>
   transact default_ledger 0 10 0 = Inl IndexError \<and>
   transact_effect default_ledger 0 10 0 = (default_ledger, Some IndexError) \<and>
   d_transact plain_engine default_d_ledger 0 10 0 = Inl IndexError \<and>
   d_transact_effect plain_engine default_d_ledger 0 10 0 =
     (default_d_ledger, [], Some IndexError) \<and>
   (\<exists>self' r. transact default_ledger 0 0 1 = Inr self' \<and>
      transact_effect default_ledger 0 0 1 = (self', None) \<and>
      transactions self' = transactions default_ledger @ [r]) \<and>
   (\<exists>d' r rs. d_transact plain_engine default_d_ledger 0 0 1 = Inr d' \<and>
      d_transact_effect plain_engine default_d_ledger 0 0 1 = (d', [r], None) \<and>
      d_transactions d' = d_transactions default_d_ledger @ [rs])"
proof -
  have a: "SimpleLedger_init 10 100 = Inr default_ledger"
    by (rule SimpleLedger_init_default)
  have b: "transact_seq default_ledger [] = Inr default_ledger"
    by simp
  have c: "DecentralizedLedger_init plain_engine [''jp_norgan'', ''ubz''] 10 100 =
      Inr default_d_ledger"
    by (rule DecentralizedLedger_init_default)
  have d: "d_transact_seq plain_engine default_d_ledger [] = Inr default_d_ledger"
    by simp
  have f: "\<bar>0 :: int\<bar> < 2 ^ 63" "\<bar>10 :: int\<bar> < 2 ^ 63" "\<bar>1 :: int\<bar> < 2 ^ 63"
    by simp_all
  note t1 = transact_checks_indices_only [OF a b c d f(1) f(2) f(1), simplified]
  note t2 = transact_checks_indices_only [OF a b c d f(1) f(1) f(3), simplified]
  from t1 t2 a b c d f show ?thesis by blast
qed


section \<open>Conservation\<close>

text \<open>
  Claim C5.  The claim: every record appended by \<open>transact\<close> sums to zero, so the total of
  all balances stays \<open>N * starting_balance\<close>.  This holds when \<open>from\<close> and \<open>to\<close> are
  different accounts (\<open>transact_conserves\<close>).  For a self-transfer it fails, since the
  second store into the record overwrites the first: on the default ledger the record
  appended by \<open>transact(5, 0, 0)\<close> sums to 5, and the total goes from 1000 to 1005.
\<close>

theorem self_transfer_breaks_conservation:
  "and_then (transact default_ledger 5 0 0) (\<lambda>l. Inr (tensor_sum (last (transactions l)))) = Inr 5 \<and>
   and_then (compute_balances default_ledger) (\<lambda>b. Inr (tensor_sum b)) = Inr 1000 \<and>
   and_then (and_then (transact default_ledger 5 0 0) compute_balances) (\<lambda>b. Inr (tensor_sum b))
     = Inr 1005"
  by (simp add: ledger_defs eval_nat_numeral)

section \<open>Non-negative balances, rejection and overflow\<close>

text \<open>
  Claim C6.  The claim: from a non-negative starting balance, every balance stays
  non-negative whatever calls are made.  This holds as long as the mask is 0 or 1
  (\<open>transact_mask_nonneg_keeps_balances_nonneg\<close>).  The mask \<open>- 1\<close>, computed when two
  candidate entries are negative, breaks it: on \<open>SimpleLedger(10, 100)\<close> the call
  \<open>transact(2 ^ 63 - 1, 0, 1)\<close> commits the record negated, and accounts 0 and 1 end
  negative.
\<close>

theorem overflowing_transfer_makes_balances_negative:
  "and_then (and_then (SimpleLedger_init 10 100) (\<lambda>l. transact l 9223372036854775807 0 1))
     signed_balances =
   Inr [- 9223372036854775709, - 9223372036854775707, 100, 100, 100, 100, 100, 100, 100, 100]"
  by (simp add: ledger_defs eval_nat_numeral)

text \<open>
  Claim C7.  The claim: an over-limit transfer submitted twice leaves the balances, after
  each call, as they were before.  With exactly one negative candidate entry the transfer
  is rejected and the balances are unchanged (\<open>transact_one_negative_rejected\<close>).  The
  transfer of \<open>2 ^ 63 - 1\<close> out of an account holding 100 has two negative candidate
  entries: the first call changes the balances of accounts 0 and 1, and the second call,
  whose candidate is then non-negative, is committed and changes them again.
\<close>

theorem over_limit_transfer_twice:
  "signed_balances default_ledger = Inr [100, 100, 100, 100, 100, 100, 100, 100, 100, 100] \<and>
   and_then (transact_seq default_ledger [(9223372036854775807, 0, 1)]) signed_balances =
     Inr [- 9223372036854775709, - 9223372036854775707, 100, 100, 100, 100, 100, 100, 100, 100] \<and>
   and_then (transact_seq default_ledger
       [(9223372036854775807, 0, 1), (9223372036854775807, 0, 1)]) signed_balances =
     Inr [100, 100, 100, 100, 100, 100, 100, 100, 100, 100]"
  by (simp add: ledger_defs eval_nat_numeral)

text \<open>
  Claim C8.  The claim: an amount large enough to overflow the 64-bit entries is rejected
  like an insufficient-funds transfer, the appended record being all zero.  On the
  default ledger the record appended for \<open>transact(2 ^ 63 - 1, 0, 1)\<close> is the built
  record multiplied by the mask \<open>1 - 2 = - 1\<close>: not zero, but the transfer in the
  opposite direction.
\<close>

theorem overflowing_transfer_is_committed:
  "and_then (transact default_ledger 9223372036854775807 0 1)
     (\<lambda>l. Inr (map sint (last (transactions l)))) =
   Inr [9223372036854775807, - 9223372036854775807, 0, 0, 0, 0, 0, 0, 0, 0]"
  by (simp add: ledger_defs eval_nat_numeral)

section \<open>The scenario of the notebook\<close>

text \<open>
  Claim C9.  On a ledger of ten accounts holding 100 each, no call raises, and
  \<open>compute_balances()\<close> returns \<open>[95, 105, 100, \<dots>]\<close> after \<open>transact(5, 0, 1)\<close>, the same
  after a following \<open>transact(100, 0, 1)\<close> (rejected: account 0 holds 95), and
  \<open>[0, 200, 100, \<dots>]\<close> after a following \<open>transact(95, 0, 1)\<close>.
\<close>

theorem notebook_scenario:
  "and_then (and_then (SimpleLedger_init 10 100) (\<lambda>l. transact_seq l [(5, 0, 1)]))
     compute_balances = Inr [95, 105, 100, 100, 100, 100, 100, 100, 100, 100] \<and>
   and_then (and_then (SimpleLedger_init 10 100) (\<lambda>l. transact_seq l [(5, 0, 1), (100, 0, 1)]))
     compute_balances = Inr [95, 105, 100, 100, 100, 100, 100, 100, 100, 100] \<and>
   and_then (and_then (SimpleLedger_init 10 100)
       (\<lambda>l. transact_seq l [(5, 0, 1), (100, 0, 1), (95, 0, 1)]))
     compute_balances = Inr [0, 200, 100, 100, 100, 100, 100, 100, 100, 100]"
  by (simp add: ledger_defs eval_nat_numeral)

section \<open>Negative indices\<close>

text \<open>
  Claim C10, as stated: for every amount and every \<open>from\<close> in \<open>[- N, - 1]\<close>,
  \<open>transact(amount, from, to)\<close> does not fail.  It does for an amount that does not fit
  a tensor entry: on the default ledgers \<open>transact(2 ^ 63, - 1, 0)\<close> ends with the
  overflow error raised by the store \<open>record[to] = amt\<close>.
\<close>

theorem huge_amount_with_negative_index_fails:
  "transact default_ledger 9223372036854775808 (- 1) 0 = Inl OverflowError \<and>
   d_transact plain_engine default_d_ledger 9223372036854775808 (- 1) 0 = Inl OverflowError"
  by (simp add: ledger_defs d_ledger_defs eval_nat_numeral)

text \<open>
  Claim C10, amended.  Take a ledger of \<open>N < 2 ^ 63\<close> accounts of either kind, reached
  from its constructor by calls of \<open>transact\<close>, an amount \<open>a\<close> with \<open>\<bar>a\<bar> < 2 ^ 63\<close> and
  indices with \<open>\<bar>from\<bar> < 2 ^ 63\<close> and \<open>\<bar>to\<bar> < 2 ^ 63\<close>.  If \<open>from\<close> and \<open>to\<close> are in
  \<open>[- N, N)\<close>, write \<open>kf\<close> for \<open>from\<close>, or \<open>N + from\<close> when \<open>from\<close> is negative, and \<open>kt\<close>
  likewise for \<open>to\<close>.  Then \<open>transact(a, from, to)\<close> does not fail and returns what
  \<open>transact(a, kf, kt)\<close> returns.  The record it builds holds \<open>- a\<close> at \<open>kf\<close> and then \<open>a\<close> at
  \<open>kt\<close>.  The simple ledger appends that record times the mask and adds it to the running
  balance; when the mask is 1 and \<open>kf \<noteq> kt\<close>, account \<open>kf\<close> is debited \<open>a\<close>, account \<open>kt\<close>
  is credited \<open>a\<close> and no other balance changes.  The decentralized ledger shares exactly
  that record, and appends and adds the shared record times the mask its engine
  computes.  An index error is raised if and only if \<open>from\<close> or \<open>to\<close> is below \<open>- N\<close> or
  at least \<open>N\<close>.
\<close>

theorem negative_index_counts_from_end:
  assumes "SimpleLedger_init n sb = Inr l0" and "transact_seq l0 calls = Inr self"
    and "DecentralizedLedger_init eng owners n sb' = Inr d0"
    and "d_transact_seq eng d0 calls' = Inr d"
    and "int n < 2 ^ 63"
    and "\<bar>amt\<bar> < 2 ^ 63" and "\<bar>frm\<bar> < 2 ^ 63" and "\<bar>to\<bar> < 2 ^ 63"
  shows "(- int n \<le> frm \<and> frm < int n \<and> - int n \<le> to \<and> to < int n \<longrightarrow>
            (let kf = nat (if frm < 0 then int n + frm else frm);
                 kt = nat (if to < 0 then int n + to else to);
                 r = (zeros n)[kf := - word_of_int amt, kt := word_of_int amt];
                 b = running_balance self;
                 m = neg_check (tensor_add b r);
                 rs = share eng r (d_owners d);
                 ms = s_rsub eng 1 (s_expand eng (s_sum0 eng (s_lt eng
                        (s_add eng (d_running_balance d) rs) (d_zeros d))) n)
             in transact self amt frm to =
                  Inr (self\<lparr>transactions := transactions self @ [tensor_mul_scalar r m],
                            running_balance := tensor_add b (tensor_mul_scalar r m)\<rparr>) \<and>
                transact self amt frm to = transact self amt (int kf) (int kt) \<and>
                (m = 1 \<and> kf \<noteq> kt \<longrightarrow>
                   tensor_add b (tensor_mul_scalar r m) =
                     b[kf := b ! kf - word_of_int amt, kt := b ! kt + word_of_int amt]) \<and>
                d_transact eng d amt frm to =
                  Inr (d\<lparr>d_transactions := d_transactions d @ [s_mul eng rs ms],
                         d_running_balance :=
                           s_add eng (d_running_balance d) (s_mul eng rs ms)\<rparr>) \<and>
                d_transact_effect eng d amt frm to =
                  (d\<lparr>d_transactions := d_transactions d @ [s_mul eng rs ms],
                      d_running_balance :=
                        s_add eng (d_running_balance d) (s_mul eng rs ms)\<rparr>, [r], None) \<and>
                d_transact eng d amt frm to = d_transact eng d amt (int kf) (int kt))) \<and>
         (transact self amt frm to = Inl IndexError \<longleftrightarrow>
            frm < - int n \<or> int n \<le> frm \<or> to < - int n \<or> int n \<le> to) \<and>
         (d_transact eng d amt frm to = Inl IndexError \<longleftrightarrow>
            frm < - int n \<or> int n \<le> frm \<or> to < - int n \<or> int n \<le> to)"
proof -
  have n: "num_accounts self = n" "d_num_accounts d = n"
    using reached_sizes(1) [OF assms(1,2)] d_reached_num_accounts [OF assms(3,4)] by simp_all
  have len: "length (running_balance self) = n"
    by (rule reached_sizes(2) [OF assms(1,2)])
  define kf where "kf = nat (if frm < 0 then int n + frm else frm)"
  define kt where "kt = nat (if to < 0 then int n + to else to)"
  define r where "r = (zeros n)[kf := - word_of_int amt, kt := word_of_int amt]"
  have in_range: "transact self amt frm to =
        Inr (self\<lparr>transactions := transactions self @
                    [tensor_mul_scalar r (neg_check (tensor_add (running_balance self) r))],
                  running_balance := tensor_add (running_balance self)
                    (tensor_mul_scalar r (neg_check (tensor_add (running_balance self) r)))\<rparr>)"
      (is ?A)
    and same: "transact self amt frm to = transact self amt (int kf) (int kt)" (is ?B)
    and debit: "neg_check (tensor_add (running_balance self) r) = 1 \<and> kf \<noteq> kt \<longrightarrow>
        tensor_add (running_balance self)
          (tensor_mul_scalar r (neg_check (tensor_add (running_balance self) r))) =
        (running_balance self)[kf := running_balance self ! kf - word_of_int amt,
                               kt := running_balance self ! kt + word_of_int amt]" (is ?C)
    and d_in_range: "d_transact eng d amt frm to =
        Inr (d\<lparr>d_transactions := d_transactions d @
                 [s_mul eng (share eng r (d_owners d))
                    (s_rsub eng 1 (s_expand eng (s_sum0 eng (s_lt eng
                       (s_add eng (d_running_balance d) (share eng r (d_owners d)))
                       (d_zeros d))) n))],
               d_running_balance := s_add eng (d_running_balance d)
                 (s_mul eng (share eng r (d_owners d))
                    (s_rsub eng 1 (s_expand eng (s_sum0 eng (s_lt eng
                       (s_add eng (d_running_balance d) (share eng r (d_owners d)))
                       (d_zeros d))) n)))\<rparr>)" (is ?D)
    and d_effect: "d_transact_effect eng d amt frm to =
        (d\<lparr>d_transactions := d_transactions d @
                 [s_mul eng (share eng r (d_owners d))
                    (s_rsub eng 1 (s_expand eng (s_sum0 eng (s_lt eng
                       (s_add eng (d_running_balance d) (share eng r (d_owners d)))
                       (d_zeros d))) n))],
               d_running_balance := s_add eng (d_running_balance d)
                 (s_mul eng (share eng r (d_owners d))
                    (s_rsub eng 1 (s_expand eng (s_sum0 eng (s_lt eng
                       (s_add eng (d_running_balance d) (share eng r (d_owners d)))
                       (d_zeros d))) n)))\<rparr>, [r], None)" (is ?E)
    and d_same: "d_transact eng d amt frm to = d_transact eng d amt (int kf) (int kt)" (is ?F)
    if range: "- int n \<le> frm \<and> frm < int n \<and> - int n \<le> to \<and> to < int n"
  proof -
    from range have k: "kf < n" "kt < n"
      by (auto simp: kf_def kt_def)
    have built: "build_record n amt frm to = Inr r"
      using build_record_in_range [OF assms(6-8), of n] range
      by (simp add: r_def kf_def kt_def)
    have "build_record n amt (int kf) (int kt) = Inr r"
      using build_record_in_range [OF assms(6), of "int kf" "int kt" n] k assms(5)
      by (simp add: r_def)
    with built have eq: "build_record n amt frm to = build_record n amt (int kf) (int kt)"
      by simp
    show ?A using transact_built [of self amt frm to r] built by (simp add: n)
    show ?B using eq by (intro transact_eq_build) (simp add: n)
    show ?C
    proof (intro impI, elim conjE)
      assume m: "neg_check (tensor_add (running_balance self) r) = 1" and ne: "kf \<noteq> kt"
      from tensor_add_transfer [OF len k ne, of "word_of_int amt"]
      have t: "tensor_add (running_balance self) r =
          (running_balance self)[kf := running_balance self ! kf - word_of_int amt,
                                 kt := running_balance self ! kt + word_of_int amt]"
        unfolding r_def .
      show "tensor_add (running_balance self)
          (tensor_mul_scalar r (neg_check (tensor_add (running_balance self) r))) =
          (running_balance self)[kf := running_balance self ! kf - word_of_int amt,
                                 kt := running_balance self ! kt + word_of_int amt]"
        unfolding m tensor_mul_scalar_one by (rule t)
    qed
    show ?D using d_transact_built [of d amt frm to r eng] built by (simp add: n)
    then show ?E using built by (simp add: d_transact_effect_eq n)
    show ?F using eq by (intro d_transact_eq_build) (simp add: n)
  qed
  have err: "transact self amt frm to = Inl IndexError \<longleftrightarrow>
      frm < - int n \<or> int n \<le> frm \<or> to < - int n \<or> int n \<le> to"
    and d_err: "d_transact eng d amt frm to = Inl IndexError \<longleftrightarrow>
      frm < - int n \<or> int n \<le> frm \<or> to < - int n \<or> int n \<le> to"
    using build_record_out_of_range [OF assms(6-8), of n]
      build_record_IndexError [of n amt frm to]
    by (auto simp: transact_Inl d_transact_Inl n)
  show ?thesis
    using in_range same debit d_in_range d_effect d_same err d_err
    unfolding Let_def kf_def kt_def r_def by blast
qed

theorem negative_index_counts_from_end_witness:
  "SimpleLedger_init 10 100 = Inr default_ledger \<and>
   transact_seq default_ledger [] = Inr default_ledger \<and>
   DecentralizedLedger_init plain_engine [''jp_norgan'', ''ubz''] 10 100 = Inr default_d_ledger \<and>
   d_transact_seq plain_engine default_d_ledger [] = Inr default_d_ledger \<and>
   int 10 < 2 ^ 63 \<and> \<bar>5 :: int\<bar> < 2 ^ 63 \<and> \<bar>- 1 :: int\<bar> < 2 ^ 63 \<and> \<bar>0 :: int\<bar> < 2 ^ 63 \<and>
   \<bar>- 11 :: int\<bar> < 2 ^ 63 \<and>
   transact default_ledger 5 (- 1) 0 =
     Inr \<lparr>transactions = [[100, 100, 100, 100, 100, 100, 100, 100, 100, 100],
                          [5, 0, 0, 0, 0, 0, 0, 0, 0, - 5]],
          num_accounts = 10,
          running_balance = [105, 100, 100, 100, 100, 100, 100, 100, 100, 95]\<rparr> \<and>
   transact default_ledger 5 (- 1) 0 = transact default_ledger 5 9 0 \<and>
   d_transact plain_engine default_d_ledger 5 (- 1) 0 =
     Inr \<lparr>d_transactions = [[100, 100, 100, 100, 100, 100, 100, 100, 100, 100],
                            [5, 0, 0, 0, 0, 0, 0, 0, 0, - 5]],
          d_owners = [''jp_norgan'', ''ubz''],
          d_num_accounts = 10,
          d_zeros = [0, 0, 0, 0, 0, 0, 0, 0, 0, 0],
          d_running_balance = [105, 100, 100, 100, 100, 100, 100, 100, 100, 95]\<rparr> \<and>
   d_transact plain_engine default_d_ledger 5 (- 1) 0 =
     d_transact plain_engine default_d_ledger 5 9 0 \<and>
   neg_check (tensor_add (running_balance default_ledger) ((zeros 10)[9 := - 5, 0 := 5])) = 1 \<and>
   (9 :: nat) \<noteq> 0 \<and>
   tensor_add (running_balance default_ledger)
       (tensor_mul_scalar ((zeros 10)[9 := - 5, 0 := 5]) 1) =
     (running_balance default_ledger)[9 := running_balance default_ledger ! 9 - 5,
                                      0 := running_balance default_ledger ! 0 + 5] \<and>
   transact default_ledger 5 (- 11) 0 = Inl IndexError \<and>
   d_transact plain_engine default_d_ledger 5 (- 11) 0 = Inl IndexError"
proof -
  have a: "SimpleLedger_init 10 100 = Inr default_ledger"
    by (rule SimpleLedger_init_default)
  have b: "transact_seq default_ledger [] = Inr default_ledger"
    by simp
  have c: "DecentralizedLedger_init plain_engine [''jp_norgan'', ''ubz''] 10 100 =
      Inr default_d_ledger"
    by (rule DecentralizedLedger_init_default)
  have d: "d_transact_seq plain_engine default_d_ledger [] = Inr default_d_ledger"
    by simp
  have f: "int 10 < 2 ^ 63" "\<bar>5 :: int\<bar> < 2 ^ 63" "\<bar>- 1 :: int\<bar> < 2 ^ 63"
    "\<bar>0 :: int\<bar> < 2 ^ 63" "\<bar>- 11 :: int\<bar> < 2 ^ 63"
    by simp_all
  note t1 = negative_index_counts_from_end [OF a b c d f(1) f(2) f(3) f(4), simplified, unfolded Let_def]
  note t2 = negative_index_counts_from_end [OF a b c d f(1) f(2) f(5) f(4), simplified, unfolded Let_def]
  have e1: "transact default_ledger 5 (- 1) 0 =
     Inr \<lparr>transactions = [[100, 100, 100, 100, 100, 100, 100, 100, 100, 100],
                          [5, 0, 0, 0, 0, 0, 0, 0, 0, - 5]],
          num_accounts = 10,
          running_balance = [105, 100, 100, 100, 100, 100, 100, 100, 100, 95]\<rparr>"
    by (simp add: ledger_defs eval_nat_numeral)
  have e2: "d_transact plain_engine default_d_ledger 5 (- 1) 0 =
     Inr \<lparr>d_transactions = [[100, 100, 100, 100, 100, 100, 100, 100, 100, 100],
                            [5, 0, 0, 0, 0, 0, 0, 0, 0, - 5]],
          d_owners = [''jp_norgan'', ''ubz''],
          d_num_accounts = 10,
          d_zeros = [0, 0, 0, 0, 0, 0, 0, 0, 0, 0],
          d_running_balance = [105, 100, 100, 100, 100, 100, 100, 100, 100, 95]\<rparr>"
    by (simp add: ledger_defs d_ledger_defs eval_nat_numeral)
  have s1: "transact default_ledger 5 (- 1) 0 = transact default_ledger 5 9 0"
    and s2: "d_transact plain_engine default_d_ledger 5 (- 1) 0 =
      d_transact plain_engine default_d_ledger 5 9 0"
    using t1 by blast+
  have m: "neg_check (tensor_add (running_balance default_ledger)
      ((zeros 10)[9 := - 5, 0 := 5])) = 1"
    by (simp add: ledger_defs eval_nat_numeral)
  have s5: "tensor_add (running_balance default_ledger)
       (tensor_mul_scalar ((zeros 10)[9 := - 5, 0 := 5]) 1) =
     (running_balance default_ledger)[9 := running_balance default_ledger ! 9 - 5,
                                      0 := running_balance default_ledger ! 0 + 5]"
    using t1 m by simp
  have s3: "transact default_ledger 5 (- 11) 0 = Inl IndexError"
    and s4: "d_transact plain_engine default_d_ledger 5 (- 11) 0 = Inl IndexError"
    using t2 by blast+
  from a b c d f e1 e2 s1 s2 s3 s4 s5 m show ?thesis by simp
qed

end
